theory Spec2Isabelle
  imports Complex_Main "HOL-Library.Word" "HOL-Library.Multiset"
begin

section \<open>Go values used by the exporter\<close>

text \<open>
  The exporter (package \<open>metrics\<close>, file \<open>src/unnamed/part_000\<close>, and the command in
  \<open>src/cmd/root.go\<close>) is written in Go. An \<open>error\<close> value is either \<open>nil\<close> or one of
  the failures a query can meet; \<open>nil\<close> is \<open>None\<close> of \<open>go_error option\<close>.
\<close>

datatype go_error =
    ConnectionError
  | Timeout
  | MalformedResult
  | SyntaxError
  | OtherError string

text \<open>A Go panic, with its message.\<close>

datatype panic = Panic string

text \<open>Go's \<open>int\<close> on the 64-bit targets the image is built for; \<open>sint\<close> reads it.\<close>

type_synonym go_int = "64 word"

subsection \<open>The conversion \<open>float64(cnt)\<close>\<close>

text \<open>
  Converting an integer to \<open>float64\<close> rounds it to 53 significant bits, ties to even.
  Every result is an integer, so the float is represented by its real value.
  \<open>bit_length\<close> is the number of binary digits of the magnitude.
\<close>

fun bit_length :: "nat \<Rightarrow> nat" where
  "bit_length n = (if n = 0 then 0 else Suc (bit_length (n div 2)))"

declare bit_length.simps [simp del]

definition round_half_even :: "nat \<Rightarrow> nat" where
  "round_half_even m =
     (if bit_length m \<le> 53 then m
      else let e = bit_length m - 53; q = m div 2 ^ e; r = m mod 2 ^ e; h = 2 ^ (e - 1)
           in (if h < r \<or> (r = h \<and> odd q) then q + 1 else q) * 2 ^ e)"

definition float64 :: "go_int \<Rightarrow> real" where
  "float64 cnt =
     (if sint cnt < 0 then - real (round_half_even (nat (- sint cnt)))
      else real (round_half_even (nat (sint cnt))))"

section \<open>The logger and the connection pool\<close>

text \<open>
  \<open>log.Error().Err(err).Msg(msg)\<close> and \<open>log.Info().Int(k, v).Msg(msg)\<close> of zerolog append
  one record to the process log.
\<close>

datatype log_level = DebugLevel | InfoLevel | ErrorLevel

record log_record =
  level :: log_level
  err :: "go_error option"
  ints :: "(string \<times> int) list"
  msg :: string

text \<open>
  The pool is an external collaborator (pgxpool); the exporter only calls
  \<open>conn.QueryRow(ctx, sql).Scan(&cnt)\<close> and \<open>Close\<close> on it. It is taken as a parameter:
  a pool is what it answers to the \<open>t\<close>-th query issued in the process when that query
  has text \<open>sql\<close>, either an error or the scanned count. The database behind it may change between two
  queries, so the answer depends on \<open>t\<close>.

  The exporter holds the pool through a pointer \<open>*pgxpool.Pool\<close>, which may be \<open>nil\<close>:
  \<open>pgxpool.Connect\<close> returns the nil pointer together with its error. The pointer is a
  \<open>pool option\<close> and \<open>nil\<close> is \<open>None\<close>. A method of the pool called on the nil pointer
  dereferences it and panics.

  The world threads the two effects of a query function: the number of queries issued
  so far and the log.
\<close>

type_synonym pool = "nat \<Rightarrow> string \<Rightarrow> go_error + go_int"

definition nil_dereference :: panic where
  "nil_dereference = Panic ''runtime error: invalid memory address or nil pointer dereference''"

record world =
  clock :: nat
  logged :: "log_record list"

definition QueryRow_Scan ::
  "pool option \<Rightarrow> string \<Rightarrow> world \<Rightarrow> panic + ((go_error + go_int) \<times> world)" where
  "QueryRow_Scan conn sql w =
     (case conn of
        None \<Rightarrow> Inl nil_dereference
      | Some p \<Rightarrow> Inr (p (clock w) sql, w\<lparr>clock := Suc (clock w)\<rparr>))"

definition log_Error :: "go_error \<Rightarrow> string \<Rightarrow> world \<Rightarrow> world" where
  "log_Error e m w =
     w\<lparr>logged := logged w @ [\<lparr>level = ErrorLevel, err = Some e, ints = [], msg = m\<rparr>]\<rparr>"

section \<open>The query functions\<close>

text \<open>
  Each function declares \<open>cnt\<close>, scans the single row of its query into it, and returns
  \<open>0\<close> after logging when \<open>Scan\<close> returned an error, \<open>float64(cnt)\<close> otherwise; a panic
  of the query leaves the function at once. In a SQL text two consecutive quote
  characters are written \<open>[CHR 0x27, CHR 0x27]\<close>.
  \<open>F_sql\<close> is the string literal of the function \<open>F\<close>, as it stands in the source.
\<close>

definition EodDaily_sql :: string where
  "EodDaily_sql =
     ''SELECT count(*) AS cnt FROM eod WHERE event_date::date = (now() - '1 day'::interval)::date''"

definition EodNoFigi_sql :: string where
  "EodNoFigi_sql =
     ''SELECT count(*) AS cnt FROM eod WHERE composite_figi='' @ [CHR 0x27, CHR 0x27]"

definition AssetsNew_sql :: string where
  "AssetsNew_sql =
     ''SELECT count(*) AS cnt FROM assets WHERE new = True''"

definition AssetsChanged_sql :: string where
  "AssetsChanged_sql =
     ''SELECT count(*) AS cnt FROM assets WHERE updated = True''"

definition AssetsRetired_sql :: string where
  "AssetsRetired_sql =
     ''SELECT count(*) AS cnt FROM assets WHERE active = False AND updated = True''"

definition AssetsNoCUSIP_sql :: string where
  "AssetsNoCUSIP_sql =
     ''SELECT count(*) AS cnt FROM assets WHERE cusip = '' @ [CHR 0x27, CHR 0x27]"

definition AssetsNoFigi_sql :: string where
  "AssetsNoFigi_sql =
     ''SELECT count(*) AS cnt FROM eod WHERE event_date::date = (now() - '1 day'::interval)::date''"

definition SeekingAlphaDaily_sql :: string where
  "SeekingAlphaDaily_sql =
     ''SELECT count(*) AS cnt FROM seeking_alpha WHERE event_date::date = now()::date''"

definition ZacksFinanceDaily_sql :: string where
  "ZacksFinanceDaily_sql =
     ''SELECT count(*) AS cnt FROM zacks_financials WHERE event_date::date = now()::date''"

definition EodDaily :: "pool option \<Rightarrow> world \<Rightarrow> panic + (real \<times> world)" where
  "EodDaily conn w =
     (case QueryRow_Scan conn EodDaily_sql w of
        Inl p \<Rightarrow> Inl p
      | Inr (Inl e, w') \<Rightarrow> Inr (0, log_Error e ''failed to retrieve eod daily count'' w')
      | Inr (Inr cnt, w') \<Rightarrow> Inr (float64 cnt, w'))"

definition EodNoFigi :: "pool option \<Rightarrow> world \<Rightarrow> panic + (real \<times> world)" where
  "EodNoFigi conn w =
     (case QueryRow_Scan conn EodNoFigi_sql w of
        Inl p \<Rightarrow> Inl p
      | Inr (Inl e, w') \<Rightarrow> Inr (0, log_Error e ''failed to retrieve eod w/ no figi'' w')
      | Inr (Inr cnt, w') \<Rightarrow> Inr (float64 cnt, w'))"

definition AssetsNew :: "pool option \<Rightarrow> world \<Rightarrow> panic + (real \<times> world)" where
  "AssetsNew conn w =
     (case QueryRow_Scan conn AssetsNew_sql w of
        Inl p \<Rightarrow> Inl p
      | Inr (Inl e, w') \<Rightarrow> Inr (0, log_Error e ''failed to retrieve num new assets'' w')
      | Inr (Inr cnt, w') \<Rightarrow> Inr (float64 cnt, w'))"

definition AssetsChanged :: "pool option \<Rightarrow> world \<Rightarrow> panic + (real \<times> world)" where
  "AssetsChanged conn w =
     (case QueryRow_Scan conn AssetsChanged_sql w of
        Inl p \<Rightarrow> Inl p
      | Inr (Inl e, w') \<Rightarrow> Inr (0, log_Error e ''failed to retrieve num assets changed'' w')
      | Inr (Inr cnt, w') \<Rightarrow> Inr (float64 cnt, w'))"

definition AssetsRetired :: "pool option \<Rightarrow> world \<Rightarrow> panic + (real \<times> world)" where
  "AssetsRetired conn w =
     (case QueryRow_Scan conn AssetsRetired_sql w of
        Inl p \<Rightarrow> Inl p
      | Inr (Inl e, w') \<Rightarrow> Inr (0, log_Error e ''failed to retrieve num assets retired'' w')
      | Inr (Inr cnt, w') \<Rightarrow> Inr (float64 cnt, w'))"

definition AssetsNoCUSIP :: "pool option \<Rightarrow> world \<Rightarrow> panic + (real \<times> world)" where
  "AssetsNoCUSIP conn w =
     (case QueryRow_Scan conn AssetsNoCUSIP_sql w of
        Inl p \<Rightarrow> Inl p
      | Inr (Inl e, w') \<Rightarrow> Inr (0, log_Error e ''failed to retrieve assets w/ no cusip'' w')
      | Inr (Inr cnt, w') \<Rightarrow> Inr (float64 cnt, w'))"

definition AssetsNoFigi :: "pool option \<Rightarrow> world \<Rightarrow> panic + (real \<times> world)" where
  "AssetsNoFigi conn w =
     (case QueryRow_Scan conn AssetsNoFigi_sql w of
        Inl p \<Rightarrow> Inl p
      | Inr (Inl e, w') \<Rightarrow> Inr (0, log_Error e ''failed to retrieve assets w/ no figi'' w')
      | Inr (Inr cnt, w') \<Rightarrow> Inr (float64 cnt, w'))"

definition SeekingAlphaDaily :: "pool option \<Rightarrow> world \<Rightarrow> panic + (real \<times> world)" where
  "SeekingAlphaDaily conn w =
     (case QueryRow_Scan conn SeekingAlphaDaily_sql w of
        Inl p \<Rightarrow> Inl p
      | Inr (Inl e, w') \<Rightarrow> Inr (0, log_Error e ''failed to retrieve seeking alpha daily count'' w')
      | Inr (Inr cnt, w') \<Rightarrow> Inr (float64 cnt, w'))"

definition ZacksFinanceDaily :: "pool option \<Rightarrow> world \<Rightarrow> panic + (real \<times> world)" where
  "ZacksFinanceDaily conn w =
     (case QueryRow_Scan conn ZacksFinanceDaily_sql w of
        Inl p \<Rightarrow> Inl p
      | Inr (Inl e, w') \<Rightarrow> Inr (0, log_Error e ''failed to retrieve zacks finance daily count'' w')
      | Inr (Inr cnt, w') \<Rightarrow> Inr (float64 cnt, w'))"

section \<open>Descriptors, samples and the collector\<close>

text \<open>
  \<open>prometheus.NewDesc(fqName, help, variableLabels, constLabels)\<close> and
  \<open>prometheus.MustNewConstMetric(desc, valueType, value, labelValues...)\<close> belong to the
  client library. A descriptor is the four values it was built from (\<open>nil\<close> is the
  empty list); a constant metric is refused, with a panic, when the number of label
  values differs from the number of variable labels of its descriptor.
\<close>

record desc =
  fq_name :: string
  help_text :: string
  variableLabels :: "string list"
  constLabels :: "(string \<times> string) list"

definition NewDesc :: "string \<Rightarrow> string \<Rightarrow> string list \<Rightarrow> (string \<times> string) list \<Rightarrow> desc" where
  "NewDesc n h vl cl = \<lparr>fq_name = n, help_text = h, variableLabels = vl, constLabels = cl\<rparr>"

datatype value_type = CounterValue | GaugeValue | UntypedValue

record metric =
  mdesc :: desc
  valType :: value_type
  val :: real
  labelValues :: "string list"

definition MustNewConstMetric :: "desc \<Rightarrow> value_type \<Rightarrow> real \<Rightarrow> string list \<Rightarrow> panic + metric" where
  "MustNewConstMetric d vt v lvs =
     (if length lvs \<noteq> length (variableLabels d)
      then Inl (Panic ''inconsistent label cardinality'')
      else Inr \<lparr>mdesc = d, valType = vt, val = v, labelValues = lvs\<rparr>)"

record dbStatsCollector =
  pool :: "pool option"
  eodDaily :: desc
  eodNoFigi :: desc
  assetsNew :: desc
  assetsChanged :: desc
  assetsRetired :: desc
  assetsNoCusip :: desc
  assetsNoFigi :: desc
  seekingAlphaDaily :: desc
  zacksFinancialDaily :: desc

definition fqName :: "string \<Rightarrow> string \<Rightarrow> string \<Rightarrow> string" where
  "fqName ns subsystem name = ns @ ''_'' @ subsystem @ ''_'' @ name"

definition NewDbStatsCollector :: "pool option \<Rightarrow> dbStatsCollector" where
  "NewDbStatsCollector p =
     \<lparr>pool = p,
      eodDaily = NewDesc (fqName ''pvdb'' ''eod'' ''daily'')
        ''Number of EOD quotes downloaded today'' [] [],
      eodNoFigi = NewDesc (fqName ''pvdb'' ''eod'' ''no_figi'')
        ''Number of EOD quotes downloaded today'' [] [],
      assetsNew = NewDesc (fqName ''pvdb'' ''assets'' ''new'')
        ''Number of new assets in the last 24 hours'' [] [],
      assetsChanged = NewDesc (fqName ''pvdb'' ''assets'' ''changed'')
        ''Number of changed assets in the last 24 hours'' [] [],
      assetsRetired = NewDesc (fqName ''pvdb'' ''assets'' ''retired'')
        ''Number of retired assets in the last 24 hours'' [] [],
      assetsNoCusip = NewDesc (fqName ''pvdb'' ''assets'' ''no_cusip'')
        ''Number of assets with no CUSIP'' [] [],
      assetsNoFigi = NewDesc (fqName ''pvdb'' ''assets'' ''no_figi'')
        ''Number of assets with no Composite FIGI'' [] [],
      seekingAlphaDaily = NewDesc (fqName ''pvdb'' ''seeking_alpha'' ''daily'')
        ''Number of Seeking Alpha ratings in last 24 hours'' [] [],
      zacksFinancialDaily = NewDesc (fqName ''pvdb'' ''zacks_finance'' ''daily'')
        ''Number of Zacks Finance records in last 24 hours'' [] []\<rparr>"

text \<open>
  A call of \<open>Describe\<close> or \<open>Collect\<close> runs on a channel, the list of what has been sent
  on it so far, and the world. \<open>Describe\<close> sends the nine held descriptors.
\<close>

definition Describe :: "dbStatsCollector \<Rightarrow> desc list \<times> world \<Rightarrow> desc list \<times> world" where
  "Describe c s =
     (case s of (ch, w) \<Rightarrow>
        (ch @ [eodDaily c, eodNoFigi c,
               assetsNew c, assetsChanged c, assetsRetired c, assetsNoCusip c, assetsNoFigi c,
               seekingAlphaDaily c, zacksFinancialDaily c], w))"

text \<open>
  One statement of \<open>Collect\<close>,
  \<open>ch <- prometheus.MustNewConstMetric(d, prometheus.GaugeValue, query(c.pool))\<close>:
  the query function runs first, then the metric is built, then it is sent. A panic
  ends the call; it is returned with the channel and the world as they were when it
  was raised.
\<close>

definition send_metric ::
  "desc \<Rightarrow> (pool option \<Rightarrow> world \<Rightarrow> panic + (real \<times> world)) \<Rightarrow> pool option
     \<Rightarrow> metric list \<times> world \<Rightarrow> (panic \<times> (metric list \<times> world)) + (metric list \<times> world)" where
  "send_metric d query conn s =
     (case s of (ch, w) \<Rightarrow>
        (case query conn w of
           Inl p \<Rightarrow> Inl (p, (ch, w))
         | Inr (v, w') \<Rightarrow>
             (case MustNewConstMetric d GaugeValue v [] of
                Inl p \<Rightarrow> Inl (p, (ch, w'))
              | Inr m \<Rightarrow> Inr (ch @ [m], w'))))"

fun run :: "('s \<Rightarrow> (panic \<times> 's) + 's) list \<Rightarrow> 's \<Rightarrow> (panic \<times> 's) + 's" where
  "run [] s = Inr s"
| "run (stmt # rest) s = (case stmt s of Inl p \<Rightarrow> Inl p | Inr s' \<Rightarrow> run rest s')"

definition Collect ::
  "dbStatsCollector \<Rightarrow> metric list \<times> world
     \<Rightarrow> (panic \<times> (metric list \<times> world)) + (metric list \<times> world)" where
  "Collect c =
     run [send_metric (eodDaily c) EodDaily (pool c),
          send_metric (eodNoFigi c) EodNoFigi (pool c),
          send_metric (assetsNew c) AssetsNew (pool c),
          send_metric (assetsChanged c) AssetsChanged (pool c),
          send_metric (assetsRetired c) AssetsRetired (pool c),
          send_metric (assetsNoCusip c) AssetsNoCUSIP (pool c),
          send_metric (assetsNoFigi c) AssetsNoFigi (pool c),
          send_metric (seekingAlphaDaily c) SeekingAlphaDaily (pool c),
          send_metric (zacksFinancialDaily c) ZacksFinanceDaily (pool c)]"

section \<open>The database behind a healthy pool\<close>

text \<open>
  Modelled from the spec: the database engine and its schema are outside the
  repository; the spec's catalogue names the tables and the predicates (quotes table
  \<open>eod\<close>, \<open>assets\<close>, the two provider tables, "yesterday" and "today" taken from the
  engine's clock). A row keeps the columns the queries mention; a timestamp is
  represented by the number of its day. \<open>pg_count\<close> is the answer of the engine to
  the statements the exporter issues, and a syntax error for any other text.
\<close>

record eod_row =
  eod_event_date :: int
  eod_composite_figi :: string

record asset_row =
  asset_new :: bool
  asset_updated :: bool
  asset_active :: bool
  asset_cusip :: string
  asset_composite_figi :: string

record dated_row =
  event_date :: int

record database =
  eod :: "eod_row list"
  assets :: "asset_row list"
  seeking_alpha :: "dated_row list"
  zacks_financials :: "dated_row list"
  today :: int

definition count_rows :: "('a \<Rightarrow> bool) \<Rightarrow> 'a list \<Rightarrow> go_int" where
  "count_rows P rows = of_nat (length (filter P rows))"

definition pg_count :: "database \<Rightarrow> string \<Rightarrow> go_error + go_int" where
  "pg_count db sql =
     (if sql = ''SELECT count(*) AS cnt FROM eod WHERE event_date::date = (now() - '1 day'::interval)::date''
      then Inr (count_rows (\<lambda>r. eod_event_date r = today db - 1) (eod db))
      else if sql = ''SELECT count(*) AS cnt FROM eod WHERE composite_figi='' @ [CHR 0x27, CHR 0x27]
      then Inr (count_rows (\<lambda>r. eod_composite_figi r = []) (eod db))
      else if sql = ''SELECT count(*) AS cnt FROM assets WHERE new = True''
      then Inr (count_rows (\<lambda>r. asset_new r) (assets db))
      else if sql = ''SELECT count(*) AS cnt FROM assets WHERE updated = True''
      then Inr (count_rows (\<lambda>r. asset_updated r) (assets db))
      else if sql = ''SELECT count(*) AS cnt FROM assets WHERE active = False AND updated = True''
      then Inr (count_rows (\<lambda>r. \<not> asset_active r \<and> asset_updated r) (assets db))
      else if sql = ''SELECT count(*) AS cnt FROM assets WHERE cusip = '' @ [CHR 0x27, CHR 0x27]
      then Inr (count_rows (\<lambda>r. asset_cusip r = []) (assets db))
      else if sql = ''SELECT count(*) AS cnt FROM seeking_alpha WHERE event_date::date = now()::date''
      then Inr (count_rows (\<lambda>r. event_date r = today db) (seeking_alpha db))
      else if sql = ''SELECT count(*) AS cnt FROM zacks_financials WHERE event_date::date = now()::date''
      then Inr (count_rows (\<lambda>r. event_date r = today db) (zacks_financials db))
      else Inl SyntaxError)"

text \<open>A healthy pool over a database that does not change while it is queried.\<close>

definition db_pool :: "database \<Rightarrow> pool" where
  "db_pool db t sql = pg_count db sql"

text \<open>
  What the catalogue says the metric "assets missing composite identifier" is: the
  number of rows of the assets table whose composite-identifier field is empty.
\<close>

definition assets_missing_composite_figi :: "database \<Rightarrow> nat" where
  "assets_missing_composite_figi db =
     length (filter (\<lambda>r. asset_composite_figi r = []) (assets db))"

text \<open>
  The database of the spec's fixed-count property: 42 quotes dated yesterday, 3 quotes
  without identifier, 5 new assets, 7 changed assets of which 1 is retired, no asset
  without CUSIP, 2 assets without composite identifier, 100 and 88 provider records
  dated today.
\<close>

definition fixed_counts_db :: database where
  "fixed_counts_db =
     \<lparr>eod = replicate 42 \<lparr>eod_event_date = 99, eod_composite_figi = ''BBG000B9XRY4''\<rparr>
            @ replicate 3 \<lparr>eod_event_date = 50, eod_composite_figi = []\<rparr>,
      assets =
          replicate 5 \<lparr>asset_new = True, asset_updated = False, asset_active = True,
                       asset_cusip = ''037833100'', asset_composite_figi = ''BBG000B9XRY4''\<rparr>
        @ replicate 6 \<lparr>asset_new = False, asset_updated = True, asset_active = True,
                       asset_cusip = ''037833100'', asset_composite_figi = ''BBG000B9XRY4''\<rparr>
        @ replicate 1 \<lparr>asset_new = False, asset_updated = True, asset_active = False,
                       asset_cusip = ''037833100'', asset_composite_figi = ''BBG000B9XRY4''\<rparr>
        @ replicate 2 \<lparr>asset_new = False, asset_updated = False, asset_active = True,
                       asset_cusip = ''037833100'', asset_composite_figi = []\<rparr>,
      seeking_alpha = replicate 100 \<lparr>event_date = 100\<rparr>,
      zacks_financials = replicate 88 \<lparr>event_date = 100\<rparr>,
      today = 100\<rparr>"

text \<open>
  A database that holds only an assets table, with one asset that has no composite
  identifier.
\<close>

definition one_asset_without_figi_db :: database where
  "one_asset_without_figi_db =
     \<lparr>eod = [],
      assets = [\<lparr>asset_new = False, asset_updated = False, asset_active = True,
                 asset_cusip = ''037833100'', asset_composite_figi = []\<rparr>],
      seeking_alpha = [], zacks_financials = [], today = 100\<rparr>"

text \<open>
  A pool over a quotes table that is being loaded while the exporter runs: the \<open>t\<close>-th
  query finds \<open>t\<close> quotes dated yesterday.
\<close>

definition loading_pool :: pool where
  "loading_pool t =
     pg_count \<lparr>eod = replicate t \<lparr>eod_event_date = 99, eod_composite_figi = ''BBG000B9XRY4''\<rparr>,
               assets = [], seeking_alpha = [], zacks_financials = [], today = 100\<rparr>"

text \<open>
  A pool on which every query fails with the same error, and a pool on which the
  \<open>k\<close>-th query alone fails.
\<close>

definition broken_pool :: "go_error \<Rightarrow> pool" where
  "broken_pool e t sql = Inl e"

definition failing_at :: "nat \<Rightarrow> go_error \<Rightarrow> pool \<Rightarrow> pool" where
  "failing_at k e p t sql = (if t = k then Inl e else p t sql)"

section \<open>The command: connect, register, serve\<close>

text \<open>
  \<open>rootCmd.Run\<close> of \<open>src/cmd/root.go\<close>. The libraries it calls are parameters:
  \<open>dialed\<close> is what became of the connection attempt of \<open>pgxpool.Connect\<close>,
  \<open>server_port\<close> is \<open>viper.GetInt("server.port")\<close>, and \<open>served\<close> is what
  \<open>http.ListenAndServe\<close> did: \<open>None\<close> when it goes on serving and never returns,
  \<open>Some e\<close> when it returned the error \<open>e\<close> (which \<open>Run\<close> drops).

  The process state keeps the log, the routes installed with \<open>http.Handle\<close>, the
  addresses \<open>http.ListenAndServe\<close> has been called with, and whether the pool has been
  closed.
\<close>

type_synonym registry = "dbStatsCollector list"

record handler =
  gatherer :: registry
  EnableOpenMetrics :: bool

record process =
  pworld :: world
  routes :: "(string \<times> handler) list"
  served_at :: "string list"
  pool_closed :: bool

text \<open>
  How the command ends: blocked for ever in \<open>http.ListenAndServe\<close>, returned from
  \<open>Run\<close>, left through \<open>os.Exit\<close>, or stopped by a panic.
\<close>

datatype outcome =
    Serving process
  | Returned process
  | Exited nat
  | Panicked panic process

text \<open>
  \<open>pool, err := pgxpool.Connect(ctx, url)\<close>: a pool and the nil error, or the nil pool
  and an error.
\<close>

definition pgxpool_Connect :: "go_error + pool \<Rightarrow> pool option \<times> go_error option" where
  "pgxpool_Connect dialed =
     (case dialed of Inl e \<Rightarrow> (None, Some e) | Inr p \<Rightarrow> (Some p, None))"

text \<open>\<open>pool.Close()\<close>, which \<open>Run\<close> defers.\<close>

definition Close :: "pool option \<Rightarrow> process \<Rightarrow> panic + process" where
  "Close conn st =
     (case conn of
        None \<Rightarrow> Inl nil_dereference
      | Some p \<Rightarrow> Inr (st\<lparr>pool_closed := True\<rparr>))"

definition NewRegistry :: registry where
  "NewRegistry = []"

definition declared :: "dbStatsCollector \<Rightarrow> world \<Rightarrow> desc list" where
  "declared c w = fst (Describe c ([], w))"

text \<open>
  Modelled from the spec: the registry of the client library is outside the
  repository. The spec says that registering "fails fatally (process cannot start) if
  two descriptors collide on fully-qualified name"; the registry obtains the
  descriptors by calling \<open>Describe\<close>.
\<close>

definition MustRegister :: "registry \<Rightarrow> dbStatsCollector \<Rightarrow> world \<Rightarrow> panic + (registry \<times> world)" where
  "MustRegister reg c w =
     (case Describe c ([], w) of (ds, w') \<Rightarrow>
        (if distinct (map fq_name (concat (map (\<lambda>r. declared r w) reg) @ ds))
         then Inr (reg @ [c], w')
         else Inl (Panic ''duplicate metrics collector registration attempted'')))"

definition log_Info :: "(string \<times> int) list \<Rightarrow> string \<Rightarrow> world \<Rightarrow> world" where
  "log_Info kvs m w =
     w\<lparr>logged := logged w @ [\<lparr>level = InfoLevel, err = None, ints = kvs, msg = m\<rparr>]\<rparr>"

text \<open>\<open>fmt.Sprintf(":%d", n)\<close>: a colon and the decimal digits of \<open>n\<close>.\<close>

fun decimal :: "nat \<Rightarrow> string" where
  "decimal n =
     (if n < 10 then [''0123456789'' ! n]
      else decimal (n div 10) @ [''0123456789'' ! (n mod 10)])"

declare decimal.simps [simp del]

definition Sprintf_colon_d :: "int \<Rightarrow> string" where
  "Sprintf_colon_d n =
     CHR '':'' # (if n < 0 then CHR ''-'' # decimal (nat (- n)) else decimal (nat n))"

text \<open>
  \<open>Run\<close>. The deferred \<open>pool.Close()\<close> runs when the body is left: after
  \<open>http.ListenAndServe\<close> has returned, or while a panic of \<open>MustRegister\<close> unwinds; a
  panic of the deferred call takes the place of the one under way.
\<close>

definition Run :: "go_error + pool \<Rightarrow> int \<Rightarrow> go_error option \<Rightarrow> process \<Rightarrow> outcome" where
  "Run dialed server_port served st =
     (let reg = NewRegistry in
      case pgxpool_Connect dialed of (db_conn, conn_err) \<Rightarrow>
        let st1 = (case conn_err of
                     None \<Rightarrow> st
                   | Some e \<Rightarrow>
                       st\<lparr>pworld := log_Error e ''failed to connect to database via pgxpool''
                                       (pworld st)\<rparr>)
        in case MustRegister reg (NewDbStatsCollector db_conn) (pworld st1) of
             Inl p \<Rightarrow>
               (case Close db_conn st1 of
                  Inl p' \<Rightarrow> Panicked p' st1
                | Inr st2 \<Rightarrow> Panicked p st2)
           | Inr (reg', w2) \<Rightarrow>
               let port = Sprintf_colon_d server_port;
                   w3 = log_Info [(''Port'', server_port)] ''Starting HTTP server'' w2;
                   st3 = st1\<lparr>pworld := w3,
                             routes := routes st1 @
                               [(''/metrics'', \<lparr>gatherer = reg', EnableOpenMetrics = True\<rparr>)]\<rparr>;
                   st4 = st3\<lparr>served_at := served_at st3 @ [port]\<rparr>
               in case served of
                    None \<Rightarrow> Serving st4
                  | Some e \<Rightarrow>
                      (case Close db_conn st4 of
                         Inl p \<Rightarrow> Panicked p st4
                       | Inr st5 \<Rightarrow> Returned st5))"

text \<open>
  \<open>Execute\<close>: \<open>rootCmd.Execute()\<close> of cobra returns an error when the command line is
  malformed, before \<open>Run\<close> is called (\<open>parsed = Some e\<close>), and \<open>nil\<close> once \<open>Run\<close> has
  returned; only a non-nil error leads to \<open>os.Exit(1)\<close>.
\<close>

definition Execute ::
  "go_error option \<Rightarrow> go_error + pool \<Rightarrow> int \<Rightarrow> go_error option \<Rightarrow> process \<Rightarrow> outcome" where
  "Execute parsed dialed server_port served st =
     (case parsed of
        Some e \<Rightarrow> Exited 1
      | None \<Rightarrow> Run dialed server_port served st)"

section \<open>One collection pass, query by query\<close>

text \<open>
  The nine query functions in the order in which \<open>Collect\<close> calls them, each with the
  SQL text it sends and the message it logs on failure.
\<close>

definition query_functions :: "(pool option \<Rightarrow> world \<Rightarrow> panic + (real \<times> world)) list" where
  "query_functions =
     [EodDaily, EodNoFigi, AssetsNew, AssetsChanged, AssetsRetired, AssetsNoCUSIP,
      AssetsNoFigi, SeekingAlphaDaily, ZacksFinanceDaily]"

definition pass_queries :: "string list" where
  "pass_queries =
     [EodDaily_sql, EodNoFigi_sql, AssetsNew_sql, AssetsChanged_sql, AssetsRetired_sql,
      AssetsNoCUSIP_sql, AssetsNoFigi_sql, SeekingAlphaDaily_sql, ZacksFinanceDaily_sql]"

definition pass_messages :: "string list" where
  "pass_messages =
     [''failed to retrieve eod daily count'', ''failed to retrieve eod w/ no figi'',
      ''failed to retrieve num new assets'', ''failed to retrieve num assets changed'',
      ''failed to retrieve num assets retired'', ''failed to retrieve assets w/ no cusip'',
      ''failed to retrieve assets w/ no figi'', ''failed to retrieve seeking alpha daily count'',
      ''failed to retrieve zacks finance daily count'']"

text \<open>
  The value and the log records that an answer of the pool leads to, and the answers
  of the pool to the nine queries of a pass that starts at query number \<open>t\<close>.
\<close>

definition gauge_value :: "go_error + go_int \<Rightarrow> real" where
  "gauge_value r = (case r of Inl e \<Rightarrow> 0 | Inr cnt \<Rightarrow> float64 cnt)"

definition failure_log :: "go_error + go_int \<Rightarrow> string \<Rightarrow> log_record list" where
  "failure_log r m =
     (case r of
        Inl e \<Rightarrow> [\<lparr>level = ErrorLevel, err = Some e, ints = [], msg = m\<rparr>]
      | Inr cnt \<Rightarrow> [])"

definition pass_answers :: "pool \<Rightarrow> nat \<Rightarrow> (go_error + go_int) list" where
  "pass_answers p t =
     [p t EodDaily_sql, p (t + 1) EodNoFigi_sql, p (t + 2) AssetsNew_sql,
      p (t + 3) AssetsChanged_sql, p (t + 4) AssetsRetired_sql, p (t + 5) AssetsNoCUSIP_sql,
      p (t + 6) AssetsNoFigi_sql, p (t + 7) SeekingAlphaDaily_sql,
      p (t + 8) ZacksFinanceDaily_sql]"

definition gauge :: "desc \<Rightarrow> real \<Rightarrow> metric" where
  "gauge d v = \<lparr>mdesc = d, valType = GaugeValue, val = v, labelValues = []\<rparr>"

text \<open>
  The world after one query function has run on the answer \<open>r\<close>, and the log records
  of a whole pass.
\<close>

definition after_query :: "go_error + go_int \<Rightarrow> string \<Rightarrow> world \<Rightarrow> world" where
  "after_query r m w = w\<lparr>clock := Suc (clock w), logged := logged w @ failure_log r m\<rparr>"

definition pass_log :: "pool \<Rightarrow> nat \<Rightarrow> log_record list" where
  "pass_log p t = concat (map2 failure_log (pass_answers p t) pass_messages)"

text \<open>
  What a scrape shows of a call of \<open>Collect\<close>: the fully-qualified name and the value
  of each sample sent, in the order sent.
\<close>

definition sent_samples ::
  "(panic \<times> (metric list \<times> world)) + (metric list \<times> world) \<Rightarrow> (string \<times> real) list" where
  "sent_samples r =
     map (\<lambda>m. (fq_name (mdesc m), val m))
       (case r of Inl (p, (ms, w)) \<Rightarrow> ms | Inr (ms, w) \<Rightarrow> ms)"

text \<open>The value a query function has returned, if it has returned.\<close>

definition value_returned :: "panic + (real \<times> world) \<Rightarrow> real option" where
  "value_returned r = (case r of Inl p \<Rightarrow> None | Inr (v, w) \<Rightarrow> Some v)"


text \<open>
  The world of a process that has issued no query and logged nothing, and the process
  at its start.
\<close>

definition fresh_world :: world where
  "fresh_world = \<lparr>clock = 0, logged = []\<rparr>"

definition fresh_process :: process where
  "fresh_process = \<lparr>pworld = fresh_world, routes = [], served_at = [], pool_closed = False\<rparr>"

section \<open>Facts about the conversion to \<open>float64\<close>\<close>

lemma bit_length_le_iff: "bit_length n \<le> k \<longleftrightarrow> n < 2 ^ k"
proof (induction n arbitrary: k rule: bit_length.induct)
  case (1 n)
  show ?case
  proof (cases "n = 0")
    case True
    then show ?thesis by (simp add: bit_length.simps [of 0])
  next
    case False
    show ?thesis
    proof (cases k)
      case 0
      with False show ?thesis by (simp add: bit_length.simps [of n])
    next
      case (Suc j)
      have "n div 2 < 2 ^ j \<longleftrightarrow> n < 2 * 2 ^ j" by auto
      with False Suc 1 [OF False, of j] show ?thesis
        by (simp add: bit_length.simps [of n])
    qed
  qed
qed

lemma float64_exact: "0 \<le> sint n \<Longrightarrow> sint n < 2 ^ 53 \<Longrightarrow> float64 n = real_of_int (sint n)"
  by (simp add: float64_def round_half_even_def bit_length_le_iff nat_less_iff)


text \<open>Beyond 53 bits the conversion rounds: it is not the identity on every count.\<close>

lemma bit_length_eq: "2 ^ k \<le> n \<Longrightarrow> n < 2 ^ Suc k \<Longrightarrow> bit_length n = Suc k"
  using bit_length_le_iff [of n k] bit_length_le_iff [of n "Suc k"] by simp

lemma round_half_even_examples:
  "round_half_even (2 ^ 53) = 2 ^ 53"
  "round_half_even (2 ^ 53 + 1) = 2 ^ 53"
  "round_half_even (2 ^ 53 + 2) = 2 ^ 53 + 2"
  "round_half_even (2 ^ 53 + 3) = 2 ^ 53 + 4"
  "round_half_even (2 ^ 63 - 1) = 2 ^ 63"
  by (simp_all add: round_half_even_def bit_length_eq [of 53] bit_length_eq [of 62])

lemma float64_rounds: "float64 9007199254740993 = 9007199254740992"
  by (simp add: float64_def round_half_even_def bit_length_eq [of 53])

section \<open>What each query function computes\<close>

lemma EodDaily_eq:
  "EodDaily (Some p) w =
     Inr (gauge_value (p (clock w) EodDaily_sql),
          after_query (p (clock w) EodDaily_sql) ''failed to retrieve eod daily count'' w)"
  by (simp add: EodDaily_def QueryRow_Scan_def log_Error_def gauge_value_def failure_log_def
      after_query_def split: sum.splits)

lemma EodDaily_nil: "EodDaily None w = Inl nil_dereference"
  by (simp add: EodDaily_def QueryRow_Scan_def)

lemma EodNoFigi_eq:
  "EodNoFigi (Some p) w =
     Inr (gauge_value (p (clock w) EodNoFigi_sql),
          after_query (p (clock w) EodNoFigi_sql) ''failed to retrieve eod w/ no figi'' w)"
  by (simp add: EodNoFigi_def QueryRow_Scan_def log_Error_def gauge_value_def failure_log_def
      after_query_def split: sum.splits)

lemma EodNoFigi_nil: "EodNoFigi None w = Inl nil_dereference"
  by (simp add: EodNoFigi_def QueryRow_Scan_def)

lemma AssetsNew_eq:
  "AssetsNew (Some p) w =
     Inr (gauge_value (p (clock w) AssetsNew_sql),
          after_query (p (clock w) AssetsNew_sql) ''failed to retrieve num new assets'' w)"
  by (simp add: AssetsNew_def QueryRow_Scan_def log_Error_def gauge_value_def failure_log_def
      after_query_def split: sum.splits)

lemma AssetsNew_nil: "AssetsNew None w = Inl nil_dereference"
  by (simp add: AssetsNew_def QueryRow_Scan_def)

lemma AssetsChanged_eq:
  "AssetsChanged (Some p) w =
     Inr (gauge_value (p (clock w) AssetsChanged_sql),
          after_query (p (clock w) AssetsChanged_sql) ''failed to retrieve num assets changed'' w)"
  by (simp add: AssetsChanged_def QueryRow_Scan_def log_Error_def gauge_value_def failure_log_def
      after_query_def split: sum.splits)

lemma AssetsChanged_nil: "AssetsChanged None w = Inl nil_dereference"
  by (simp add: AssetsChanged_def QueryRow_Scan_def)

lemma AssetsRetired_eq:
  "AssetsRetired (Some p) w =
     Inr (gauge_value (p (clock w) AssetsRetired_sql),
          after_query (p (clock w) AssetsRetired_sql) ''failed to retrieve num assets retired'' w)"
  by (simp add: AssetsRetired_def QueryRow_Scan_def log_Error_def gauge_value_def failure_log_def
      after_query_def split: sum.splits)

lemma AssetsRetired_nil: "AssetsRetired None w = Inl nil_dereference"
  by (simp add: AssetsRetired_def QueryRow_Scan_def)

lemma AssetsNoCUSIP_eq:
  "AssetsNoCUSIP (Some p) w =
     Inr (gauge_value (p (clock w) AssetsNoCUSIP_sql),
          after_query (p (clock w) AssetsNoCUSIP_sql) ''failed to retrieve assets w/ no cusip'' w)"
  by (simp add: AssetsNoCUSIP_def QueryRow_Scan_def log_Error_def gauge_value_def failure_log_def
      after_query_def split: sum.splits)

lemma AssetsNoCUSIP_nil: "AssetsNoCUSIP None w = Inl nil_dereference"
  by (simp add: AssetsNoCUSIP_def QueryRow_Scan_def)

lemma AssetsNoFigi_eq:
  "AssetsNoFigi (Some p) w =
     Inr (gauge_value (p (clock w) AssetsNoFigi_sql),
          after_query (p (clock w) AssetsNoFigi_sql) ''failed to retrieve assets w/ no figi'' w)"
  by (simp add: AssetsNoFigi_def QueryRow_Scan_def log_Error_def gauge_value_def failure_log_def
      after_query_def split: sum.splits)

lemma AssetsNoFigi_nil: "AssetsNoFigi None w = Inl nil_dereference"
  by (simp add: AssetsNoFigi_def QueryRow_Scan_def)

lemma SeekingAlphaDaily_eq:
  "SeekingAlphaDaily (Some p) w =
     Inr (gauge_value (p (clock w) SeekingAlphaDaily_sql),
          after_query (p (clock w) SeekingAlphaDaily_sql) ''failed to retrieve seeking alpha daily count'' w)"
  by (simp add: SeekingAlphaDaily_def QueryRow_Scan_def log_Error_def gauge_value_def failure_log_def
      after_query_def split: sum.splits)

lemma SeekingAlphaDaily_nil: "SeekingAlphaDaily None w = Inl nil_dereference"
  by (simp add: SeekingAlphaDaily_def QueryRow_Scan_def)

lemma ZacksFinanceDaily_eq:
  "ZacksFinanceDaily (Some p) w =
     Inr (gauge_value (p (clock w) ZacksFinanceDaily_sql),
          after_query (p (clock w) ZacksFinanceDaily_sql) ''failed to retrieve zacks finance daily count'' w)"
  by (simp add: ZacksFinanceDaily_def QueryRow_Scan_def log_Error_def gauge_value_def failure_log_def
      after_query_def split: sum.splits)

lemma ZacksFinanceDaily_nil: "ZacksFinanceDaily None w = Inl nil_dereference"
  by (simp add: ZacksFinanceDaily_def QueryRow_Scan_def)

lemmas query_eqs = EodDaily_eq EodNoFigi_eq AssetsNew_eq AssetsChanged_eq AssetsRetired_eq
  AssetsNoCUSIP_eq AssetsNoFigi_eq SeekingAlphaDaily_eq ZacksFinanceDaily_eq

lemmas query_nils = EodDaily_nil EodNoFigi_nil AssetsNew_nil AssetsChanged_nil AssetsRetired_nil
  AssetsNoCUSIP_nil AssetsNoFigi_nil SeekingAlphaDaily_nil ZacksFinanceDaily_nil

section \<open>What a collection pass computes\<close>

lemma send_metric_gauge:
  "variableLabels d = [] \<Longrightarrow> query conn w = Inr (v, w') \<Longrightarrow>
   send_metric d query conn (ch, w) = Inr (ch @ [gauge d v], w')"
  by (simp add: send_metric_def MustNewConstMetric_def gauge_def)


lemma NewDbStatsCollector_no_labels:
  "variableLabels (eodDaily (NewDbStatsCollector p)) = []"
  "variableLabels (eodNoFigi (NewDbStatsCollector p)) = []"
  "variableLabels (assetsNew (NewDbStatsCollector p)) = []"
  "variableLabels (assetsChanged (NewDbStatsCollector p)) = []"
  "variableLabels (assetsRetired (NewDbStatsCollector p)) = []"
  "variableLabels (assetsNoCusip (NewDbStatsCollector p)) = []"
  "variableLabels (assetsNoFigi (NewDbStatsCollector p)) = []"
  "variableLabels (seekingAlphaDaily (NewDbStatsCollector p)) = []"
  "variableLabels (zacksFinancialDaily (NewDbStatsCollector p)) = []"
  by (simp_all add: NewDbStatsCollector_def NewDesc_def)

lemma pool_NewDbStatsCollector: "pool (NewDbStatsCollector p) = p"
  by (simp add: NewDbStatsCollector_def)

lemma declared_eq:
  "declared c w =
     [eodDaily c, eodNoFigi c, assetsNew c, assetsChanged c, assetsRetired c,
      assetsNoCusip c, assetsNoFigi c, seekingAlphaDaily c, zacksFinancialDaily c]"
  by (simp add: declared_def Describe_def)

lemma Collect_result:
  "Collect (NewDbStatsCollector (Some p)) (ch, w) =
     Inr (ch @ map2 gauge (declared (NewDbStatsCollector (Some p)) w)
                 (map gauge_value (pass_answers p (clock w))),
          w\<lparr>clock := clock w + 9, logged := logged w @ pass_log p (clock w)\<rparr>)"
  by (simp add: Collect_def send_metric_gauge NewDbStatsCollector_no_labels
      pool_NewDbStatsCollector query_eqs after_query_def declared_eq pass_answers_def
      pass_log_def pass_messages_def eval_nat_numeral)


lemma declared_NewDbStatsCollector:
  "map fq_name (declared (NewDbStatsCollector p) w) =
     [''pvdb_eod_daily'', ''pvdb_eod_no_figi'', ''pvdb_assets_new'', ''pvdb_assets_changed'',
      ''pvdb_assets_retired'', ''pvdb_assets_no_cusip'', ''pvdb_assets_no_figi'',
      ''pvdb_seeking_alpha_daily'', ''pvdb_zacks_finance_daily'']"
  by (simp add: declared_eq NewDbStatsCollector_def NewDesc_def fqName_def)

lemma distinct_declared_names:
  "distinct (map fq_name (declared (NewDbStatsCollector p) w))"
  unfolding declared_NewDbStatsCollector by simp


lemma length_pass_answers: "length (pass_answers p t) = 9"
  by (simp add: pass_answers_def)

lemma length_declared: "length (declared c w) = 9"
  by (simp add: declared_eq)

lemma map_mdesc_gauge:
  "length ds = length vs \<Longrightarrow> map mdesc (map2 gauge ds vs) = ds"
  by (induction ds vs rule: list_induct2) (simp_all add: gauge_def)

section \<open>The collector contract\<close>



text \<open>
  C5. Two calls of \<open>Describe\<close> on the same collector send the same sequence of
  descriptors, whether they start in unrelated worlds or the second call follows the
  first, and that sequence has nine elements.
\<close>

theorem Describe_idempotent:
  "fst (Describe c ([], w1)) = fst (Describe c ([], w2))
   \<and> fst (Describe c ([], snd (Describe c ([], w1)))) = fst (Describe c ([], w1))
   \<and> length (fst (Describe c ([], w1))) = 9"
  by (simp add: Describe_def)

text \<open>
  C6. A call of \<open>Describe\<close> leaves the world as it found it: no query is issued (the
  query counter keeps its value) and nothing is logged; and what it sends does not
  depend on the pool the collector holds.
\<close>

theorem Describe_leaves_the_pool_alone:
  "snd (Describe c (ch, w)) = w
   \<and> fst (Describe (c\<lparr>pool := p'\<rparr>) (ch, w)) = fst (Describe c (ch, w))"
  by (simp add: Describe_def)

section \<open>Query by query\<close>

lemma less_9_cases:
  "i < 9 \<Longrightarrow> i = 0 \<or> i = 1 \<or> i = 2 \<or> i = 3 \<or> i = 4 \<or> i = 5 \<or> i = 6 \<or> i = 7 \<or> i = (8::nat)"
  by arith

lemma query_functions_nth:
  assumes "i < 9"
  shows "(query_functions ! i) (Some p) w =
     Inr (gauge_value (p (clock w) (pass_queries ! i)),
          after_query (p (clock w) (pass_queries ! i)) (pass_messages ! i) w)"
  using less_9_cases [OF assms]
  by (elim disjE) (simp_all add: query_functions_def pass_queries_def pass_messages_def query_eqs)

lemma pass_answers_nth:
  assumes "i < 9"
  shows "pass_answers p t ! i = p (t + i) (pass_queries ! i)"
  using less_9_cases [OF assms]
  by (elim disjE) (simp_all add: pass_answers_def pass_queries_def)

lemma sample_nth:
  assumes "i < 9"
  shows "map2 gauge (declared c w) (map gauge_value (pass_answers p t)) ! i =
           gauge (declared c w ! i) (gauge_value (p (t + i) (pass_queries ! i)))"
  using assms by (simp add: length_declared length_pass_answers pass_answers_nth)

lemma after_query_failure:
  "after_query (Inl e) m w = log_Error e m (w\<lparr>clock := Suc (clock w)\<rparr>)"
  by (simp add: after_query_def failure_log_def log_Error_def)

text \<open>
  C4. Take the \<open>i\<close>-th of the nine query functions. Called in a world where the pool
  answers its query with an error, it does not panic and returns the value \<open>0\<close> and
  nothing else but the world, in which the query has been issued and one error record with its message has
  been logged. And when the \<open>i\<close>-th query of a collection pass fails, \<open>Collect\<close>
  still returns without panic, with nine samples, the \<open>i\<close>-th of which carries the
  \<open>i\<close>-th declared descriptor and the value \<open>0\<close>.
\<close>

theorem failed_query_yields_zero_sample:
  assumes "i < 9"
  shows "(p (clock w0) (pass_queries ! i) = Inl e \<longrightarrow>
            (query_functions ! i) (Some p) w0 =
              Inr (0, log_Error e (pass_messages ! i) (w0\<lparr>clock := Suc (clock w0)\<rparr>)))
       \<and> (p (clock w + i) (pass_queries ! i) = Inl e \<longrightarrow>
            (\<exists>ms w'. Collect (NewDbStatsCollector (Some p)) (ch, w) = Inr (ch @ ms, w')
               \<and> length ms = 9
               \<and> mdesc (ms ! i) = fst (Describe (NewDbStatsCollector (Some p)) ([], w)) ! i
               \<and> val (ms ! i) = 0))"
proof (intro conjI impI)
  assume "p (clock w0) (pass_queries ! i) = Inl e"
  then show "(query_functions ! i) (Some p) w0 =
      Inr (0, log_Error e (pass_messages ! i) (w0\<lparr>clock := Suc (clock w0)\<rparr>))"
    by (simp add: query_functions_nth [OF assms] gauge_value_def after_query_failure)
next
  let ?c = "NewDbStatsCollector (Some p)"
  let ?ms = "map2 gauge (declared ?c w) (map gauge_value (pass_answers p (clock w)))"
  assume failed: "p (clock w + i) (pass_queries ! i) = Inl e"
  have "?ms ! i = gauge (declared ?c w ! i) 0"
    by (simp add: sample_nth [OF assms] failed gauge_value_def)
  then have "mdesc (?ms ! i) = fst (Describe ?c ([], w)) ! i" and "val (?ms ! i) = 0"
    by (simp_all add: gauge_def declared_def)
  moreover have "length ?ms = 9"
    by (simp add: length_declared length_pass_answers)
  ultimately show "\<exists>ms w'. Collect ?c (ch, w) = Inr (ch @ ms, w')
       \<and> length ms = 9 \<and> mdesc (ms ! i) = fst (Describe ?c ([], w)) ! i \<and> val (ms ! i) = 0"
    using Collect_result [of p ch w] by blast
qed

text \<open>
  The theorem at a pool over the fixed-count database whose seventh query times out.
\<close>

theorem failed_query_yields_zero_sample_witness:
  "(6::nat) < 9
   \<and> failing_at 6 Timeout (db_pool fixed_counts_db) (clock (fresh_world\<lparr>clock := 6\<rparr>))
        (pass_queries ! 6) = Inl Timeout
   \<and> (query_functions ! 6) (Some (failing_at 6 Timeout (db_pool fixed_counts_db)))
        (fresh_world\<lparr>clock := 6\<rparr>) =
       Inr (0, log_Error Timeout (pass_messages ! 6) (fresh_world\<lparr>clock := 7\<rparr>))
   \<and> failing_at 6 Timeout (db_pool fixed_counts_db) (clock fresh_world + 6)
        (pass_queries ! 6) = Inl Timeout
   \<and> (\<exists>ms w'. Collect (NewDbStatsCollector (Some (failing_at 6 Timeout (db_pool fixed_counts_db))))
                  ([], fresh_world) = Inr ([] @ ms, w')
         \<and> length ms = 9
         \<and> mdesc (ms ! 6) =
             fst (Describe (NewDbStatsCollector (Some (failing_at 6 Timeout (db_pool fixed_counts_db))))
                    ([], fresh_world)) ! 6
         \<and> val (ms ! 6) = 0)"
proof -
  have a: "(6::nat) < 9" by simp
  have b: "failing_at 6 Timeout (db_pool fixed_counts_db) (clock (fresh_world\<lparr>clock := 6\<rparr>))
        (pass_queries ! 6) = Inl Timeout"
    by (simp add: failing_at_def)
  have c: "failing_at 6 Timeout (db_pool fixed_counts_db) (clock fresh_world + 6)
        (pass_queries ! 6) = Inl Timeout"
    by (simp add: failing_at_def fresh_world_def)
  show ?thesis
    using a b c failed_query_yields_zero_sample
      [OF a, of "failing_at 6 Timeout (db_pool fixed_counts_db)" "fresh_world\<lparr>clock := 6\<rparr>"
         Timeout fresh_world "[]"]
    by simp
qed


section \<open>A healthy pool over a fixed database\<close>

lemma pg_count_queries:
  "pg_count db EodDaily_sql = Inr (count_rows (\<lambda>r. eod_event_date r = today db - 1) (eod db))"
  "pg_count db EodNoFigi_sql = Inr (count_rows (\<lambda>r. eod_composite_figi r = []) (eod db))"
  "pg_count db AssetsNew_sql = Inr (count_rows (\<lambda>r. asset_new r) (assets db))"
  "pg_count db AssetsChanged_sql = Inr (count_rows (\<lambda>r. asset_updated r) (assets db))"
  "pg_count db AssetsRetired_sql =
     Inr (count_rows (\<lambda>r. \<not> asset_active r \<and> asset_updated r) (assets db))"
  "pg_count db AssetsNoCUSIP_sql = Inr (count_rows (\<lambda>r. asset_cusip r = []) (assets db))"
  "pg_count db AssetsNoFigi_sql = Inr (count_rows (\<lambda>r. eod_event_date r = today db - 1) (eod db))"
  "pg_count db SeekingAlphaDaily_sql = Inr (count_rows (\<lambda>r. event_date r = today db) (seeking_alpha db))"
  "pg_count db ZacksFinanceDaily_sql = Inr (count_rows (\<lambda>r. event_date r = today db) (zacks_financials db))"
  by (simp_all add: pg_count_def EodDaily_sql_def EodNoFigi_sql_def AssetsNew_sql_def
      AssetsChanged_sql_def AssetsRetired_sql_def AssetsNoCUSIP_sql_def AssetsNoFigi_sql_def
      SeekingAlphaDaily_sql_def ZacksFinanceDaily_sql_def)

lemma fixed_counts_answers:
  "pass_answers (db_pool fixed_counts_db) t =
     [Inr 42, Inr 3, Inr 5, Inr 7, Inr 1, Inr 0, Inr 42, Inr 100, Inr 88]"
  by (simp add: pass_answers_def db_pool_def pg_count_queries count_rows_def fixed_counts_db_def)

lemma float64_numeral_values:
  "float64 0 = 0" "float64 1 = 1" "float64 3 = 3" "float64 5 = 5" "float64 6 = 6" "float64 7 = 7"
  "float64 42 = 42" "float64 88 = 88" "float64 100 = 100"
  by (simp_all add: float64_exact)

lemma sent_samples_Collect:
  "sent_samples (Collect (NewDbStatsCollector (Some p)) (ch, w)) =
     map (\<lambda>m. (fq_name (mdesc m), val m)) ch @
     zip [''pvdb_eod_daily'', ''pvdb_eod_no_figi'', ''pvdb_assets_new'', ''pvdb_assets_changed'',
          ''pvdb_assets_retired'', ''pvdb_assets_no_cusip'', ''pvdb_assets_no_figi'',
          ''pvdb_seeking_alpha_daily'', ''pvdb_zacks_finance_daily'']
         (map gauge_value (pass_answers p (clock w)))"
  unfolding Collect_result sent_samples_def
  by (simp add: declared_eq pass_answers_def gauge_def NewDbStatsCollector_def NewDesc_def
      fqName_def)



text \<open>
  C10. Two calls of \<open>Collect\<close> on the same collector, started at any two moments at
  which the pool gives the same nine answers, send the same sequence of samples; the
  descriptors of that sequence are those of \<open>Describe\<close> in its order, from
  \<open>eodDaily\<close> to \<open>zacksFinancialDaily\<close>. Nothing but the answers of the pool enters
  the samples.
\<close>

theorem Collect_deterministic_in_the_answers:
  assumes "pass_answers p (clock w1) = pass_answers p (clock w2)"
  shows "\<exists>ms w1' w2'.
           Collect (NewDbStatsCollector (Some p)) (ch1, w1) = Inr (ch1 @ ms, w1')
         \<and> Collect (NewDbStatsCollector (Some p)) (ch2, w2) = Inr (ch2 @ ms, w2')
         \<and> map mdesc ms = fst (Describe (NewDbStatsCollector (Some p)) ([], w1))
         \<and> mdesc (hd ms) = eodDaily (NewDbStatsCollector (Some p))
         \<and> mdesc (last ms) = zacksFinancialDaily (NewDbStatsCollector (Some p))"
proof -
  let ?c = "NewDbStatsCollector (Some p)"
  let ?ms = "map2 gauge (declared ?c w1) (map gauge_value (pass_answers p (clock w1)))"
  have same: "map2 gauge (declared ?c w2) (map gauge_value (pass_answers p (clock w2))) = ?ms"
    by (simp add: assms declared_eq)
  have descs: "map mdesc ?ms = fst (Describe ?c ([], w1))"
    unfolding declared_def [symmetric]
    by (rule map_mdesc_gauge) (simp add: length_declared length_pass_answers)
  have ends: "mdesc (hd ?ms) = eodDaily ?c" "mdesc (last ?ms) = zacksFinancialDaily ?c"
    by (simp_all add: declared_eq pass_answers_def gauge_def)
  show ?thesis
    using Collect_result [of p ch1 w1] Collect_result [of p ch2 w2] same descs ends
    by (intro exI conjI) simp_all
qed

text \<open>
  The theorem at the pool over the fixed-count database, for a first pass and the
  pass that follows it.
\<close>

theorem Collect_deterministic_in_the_answers_witness:
  "pass_answers (db_pool fixed_counts_db) (clock fresh_world) =
     pass_answers (db_pool fixed_counts_db) (clock (fresh_world\<lparr>clock := 9\<rparr>))
   \<and> (\<exists>ms w1' w2'.
           Collect (NewDbStatsCollector (Some (db_pool fixed_counts_db))) ([], fresh_world) =
             Inr ([] @ ms, w1')
         \<and> Collect (NewDbStatsCollector (Some (db_pool fixed_counts_db)))
             ([], fresh_world\<lparr>clock := 9\<rparr>) = Inr ([] @ ms, w2')
         \<and> map mdesc ms =
             fst (Describe (NewDbStatsCollector (Some (db_pool fixed_counts_db))) ([], fresh_world))
         \<and> mdesc (hd ms) = eodDaily (NewDbStatsCollector (Some (db_pool fixed_counts_db)))
         \<and> mdesc (last ms) = zacksFinancialDaily (NewDbStatsCollector (Some (db_pool fixed_counts_db))))"
proof -
  have a: "pass_answers (db_pool fixed_counts_db) (clock fresh_world) =
     pass_answers (db_pool fixed_counts_db) (clock (fresh_world\<lparr>clock := 9\<rparr>))"
    by (simp add: fixed_counts_answers)
  show ?thesis
    using a Collect_deterministic_in_the_answers
      [of "db_pool fixed_counts_db" fresh_world "fresh_world\<lparr>clock := 9\<rparr>" "[]" "[]"]
    by blast
qed

text \<open>
  C2. At the pool over the fixed-count database, one call of \<open>Collect\<close> sends the
  values 42, 3, 5, 7, 1, 0, 100 and 88 with the descriptors they belong to, but the
  sample of \<open>pvdb_assets_no_figi\<close> carries 42, the number of quotes dated yesterday,
  although 2 assets have no composite identifier.
\<close>

theorem fixed_counts_pass:
  "sent_samples (Collect (NewDbStatsCollector (Some (db_pool fixed_counts_db))) ([], fresh_world)) =
     [(''pvdb_eod_daily'', 42), (''pvdb_eod_no_figi'', 3), (''pvdb_assets_new'', 5),
      (''pvdb_assets_changed'', 7), (''pvdb_assets_retired'', 1), (''pvdb_assets_no_cusip'', 0),
      (''pvdb_assets_no_figi'', 42), (''pvdb_seeking_alpha_daily'', 100),
      (''pvdb_zacks_finance_daily'', 88)]
   \<and> assets_missing_composite_figi fixed_counts_db = 2"
  unfolding sent_samples_Collect fixed_counts_answers
  by (simp add: gauge_value_def float64_numeral_values assets_missing_composite_figi_def
      fixed_counts_db_def)

text \<open>
  C3. Over any healthy pool \<open>AssetsNoFigi\<close> returns the number of rows of the quotes
  table dated yesterday. At a database with no quote and one asset without composite
  identifier it returns \<open>0\<close>, where the number of assets without composite identifier
  is \<open>1\<close>.
\<close>

theorem AssetsNoFigi_counts_quotes:
  "value_returned (AssetsNoFigi (Some (db_pool db)) w) =
     Some (float64 (count_rows (\<lambda>r. eod_event_date r = today db - 1) (eod db)))
   \<and> value_returned (AssetsNoFigi (Some (db_pool one_asset_without_figi_db)) fresh_world) = Some 0
   \<and> assets_missing_composite_figi one_asset_without_figi_db = 1"
  by (simp add: AssetsNoFigi_eq value_returned_def db_pool_def pg_count_queries gauge_value_def count_rows_def
      one_asset_without_figi_db_def assets_missing_composite_figi_def float64_numeral_values)

section \<open>The two queries with the same text\<close>

lemma loading_pool_answers:
  "pass_answers loading_pool 0 =
     [Inr 0, Inr 0, Inr 0, Inr 0, Inr 0, Inr 0, Inr 6, Inr 0, Inr 0]"
  by (simp add: pass_answers_def loading_pool_def pg_count_queries count_rows_def)

text \<open>
  C9, as stated, fails: \<open>EodDaily\<close> and \<open>AssetsNoFigi\<close> are the first and the seventh
  query of a pass, and the pool may answer the same text differently the second time.
  Over a quotes table that is being loaded, the sample of \<open>pvdb_eod_daily\<close> carries
  \<open>0\<close> and the sample of \<open>pvdb_assets_no_figi\<close> carries \<open>6\<close>.
\<close>

theorem quotes_loaded_during_a_pass:
  "sent_samples (Collect (NewDbStatsCollector (Some loading_pool)) ([], fresh_world)) =
     [(''pvdb_eod_daily'', 0), (''pvdb_eod_no_figi'', 0), (''pvdb_assets_new'', 0),
      (''pvdb_assets_changed'', 0), (''pvdb_assets_retired'', 0), (''pvdb_assets_no_cusip'', 0),
      (''pvdb_assets_no_figi'', 6), (''pvdb_seeking_alpha_daily'', 0),
      (''pvdb_zacks_finance_daily'', 0)]
   \<and> snd (sent_samples (Collect (NewDbStatsCollector (Some loading_pool)) ([], fresh_world)) ! 0)
       \<noteq> snd (sent_samples (Collect (NewDbStatsCollector (Some loading_pool)) ([], fresh_world)) ! 6)"
  unfolding sent_samples_Collect
  by (simp add: fresh_world_def loading_pool_answers gauge_value_def float64_numeral_values)

text \<open>
  C9, amended. \<open>AssetsNoFigi\<close> sends the SQL text of \<open>EodDaily\<close>; called in the same
  world, on a pool that answers, the two functions return, and return the same value;
  and in a collection pass during
  which the pool answers that text at the seventh query as it did at the first, the
  sample of \<open>assetsNoFigi\<close> carries the value of the sample of \<open>eodDaily\<close>.
\<close>

theorem same_query_same_answer_same_sample:
  assumes "p (clock w) EodDaily_sql = p (clock w + 6) EodDaily_sql"
  shows "AssetsNoFigi_sql = EodDaily_sql
       \<and> value_returned (AssetsNoFigi (Some p) w0) = value_returned (EodDaily (Some p) w0)
       \<and> value_returned (EodDaily (Some p) w0) \<noteq> None
       \<and> (\<exists>ms w'. Collect (NewDbStatsCollector (Some p)) (ch, w) = Inr (ch @ ms, w')
             \<and> mdesc (ms ! 0) = eodDaily (NewDbStatsCollector (Some p))
             \<and> mdesc (ms ! 6) = assetsNoFigi (NewDbStatsCollector (Some p))
             \<and> val (ms ! 6) = val (ms ! 0))"
proof -
  let ?c = "NewDbStatsCollector (Some p)"
  let ?ms = "map2 gauge (declared ?c w) (map gauge_value (pass_answers p (clock w)))"
  have sql: "AssetsNoFigi_sql = EodDaily_sql"
    by (simp add: AssetsNoFigi_sql_def EodDaily_sql_def)
  have fn: "value_returned (AssetsNoFigi (Some p) w0) = value_returned (EodDaily (Some p) w0)"
    "value_returned (EodDaily (Some p) w0) \<noteq> None"
    by (simp_all add: AssetsNoFigi_eq EodDaily_eq sql value_returned_def)
  have "mdesc (?ms ! 0) = eodDaily ?c" "mdesc (?ms ! 6) = assetsNoFigi ?c"
    "val (?ms ! 6) = val (?ms ! 0)"
    using assms by (simp_all add: declared_eq pass_answers_def gauge_def sql)
  then show ?thesis
    using sql fn Collect_result [of p ch w] by blast
qed

text \<open>
  The amended theorem at the pool over the fixed-count database.
\<close>

theorem same_query_same_answer_same_sample_witness:
  "db_pool fixed_counts_db (clock fresh_world) EodDaily_sql =
     db_pool fixed_counts_db (clock fresh_world + 6) EodDaily_sql
   \<and> AssetsNoFigi_sql = EodDaily_sql
   \<and> value_returned (AssetsNoFigi (Some (db_pool fixed_counts_db)) fresh_world) =
       value_returned (EodDaily (Some (db_pool fixed_counts_db)) fresh_world)
   \<and> value_returned (EodDaily (Some (db_pool fixed_counts_db)) fresh_world) \<noteq> None
   \<and> (\<exists>ms w'. Collect (NewDbStatsCollector (Some (db_pool fixed_counts_db))) ([], fresh_world) =
                  Inr ([] @ ms, w')
         \<and> mdesc (ms ! 0) = eodDaily (NewDbStatsCollector (Some (db_pool fixed_counts_db)))
         \<and> mdesc (ms ! 6) = assetsNoFigi (NewDbStatsCollector (Some (db_pool fixed_counts_db)))
         \<and> val (ms ! 6) = val (ms ! 0))"
proof -
  have h: "db_pool fixed_counts_db (clock fresh_world) EodDaily_sql =
     db_pool fixed_counts_db (clock fresh_world + 6) EodDaily_sql"
    by (simp add: db_pool_def)
  show ?thesis
    using h same_query_same_answer_same_sample
      [of "db_pool fixed_counts_db" fresh_world fresh_world "[]"] by simp
qed

section \<open>Starting the process\<close>

lemma Sprintf_colon_d_default_port: "Sprintf_colon_d 2112 = '':2112''"
  by (simp add: Sprintf_colon_d_def decimal.simps [of 2112] decimal.simps [of 211]
      decimal.simps [of 21] decimal.simps [of 2])

lemma MustRegister_first:
  "MustRegister NewRegistry (NewDbStatsCollector conn) w = Inr ([NewDbStatsCollector conn], w)"
proof -
  have "Describe (NewDbStatsCollector conn) ([], w) = (declared (NewDbStatsCollector conn) w, w)"
    by (simp add: declared_def Describe_def)
  then show ?thesis
    using distinct_declared_names [of conn w] by (simp add: MustRegister_def NewRegistry_def)
qed

text \<open>
  C8. When the connection attempt has failed with the error \<open>e\<close>, the command logs
  one error record, registers the collector built on the pool that \<open>pgxpool.Connect\<close>
  returned with the error, the nil pool, logs the start-up record, installs the route
  \<open>/metrics\<close> on that registry and calls \<open>http.ListenAndServe\<close> on the configured
  port. While the listener stays up the process is serving. It never leaves through
  \<open>os.Exit\<close>; should the listener return, the deferred \<open>pool.Close()\<close> on the nil pool
  panics, after all of the above has taken place.
\<close>

theorem connect_failure_is_logged_and_the_collector_served:
  "Execute None (Inl e) port None st =
     Serving (st\<lparr>pworld := log_Info [(''Port'', port)] ''Starting HTTP server''
                   (log_Error e ''failed to connect to database via pgxpool'' (pworld st)),
                 routes := routes st @
                   [(''/metrics'',
                     \<lparr>gatherer = [NewDbStatsCollector None], EnableOpenMetrics = True\<rparr>)],
                 served_at := served_at st @ [Sprintf_colon_d port]\<rparr>)
   \<and> Execute None (Inl e) port (Some e') st =
       Panicked nil_dereference
         (st\<lparr>pworld := log_Info [(''Port'', port)] ''Starting HTTP server''
                   (log_Error e ''failed to connect to database via pgxpool'' (pworld st)),
              routes := routes st @
                [(''/metrics'',
                  \<lparr>gatherer = [NewDbStatsCollector None], EnableOpenMetrics = True\<rparr>)],
              served_at := served_at st @ [Sprintf_colon_d port]\<rparr>)
   \<and> Execute None (Inl e) port served st \<noteq> Exited n"
  by (cases served)
    (simp_all add: Execute_def Run_def pgxpool_Connect_def Close_def MustRegister_first)

text \<open>
  After a successful connect the same command serves the collector built on the pool,
  and returns with the pool closed when the listener returns.
\<close>

lemma Run_after_successful_connect:
  "Execute None (Inr p) port None st =
     Serving (st\<lparr>pworld := log_Info [(''Port'', port)] ''Starting HTTP server'' (pworld st),
                 routes := routes st @
                   [(''/metrics'',
                     \<lparr>gatherer = [NewDbStatsCollector (Some p)], EnableOpenMetrics = True\<rparr>)],
                 served_at := served_at st @ [Sprintf_colon_d port]\<rparr>)"
  "Execute None (Inr p) port (Some e') st =
     Returned (st\<lparr>pworld := log_Info [(''Port'', port)] ''Starting HTTP server'' (pworld st),
                  routes := routes st @
                    [(''/metrics'',
                      \<lparr>gatherer = [NewDbStatsCollector (Some p)], EnableOpenMetrics = True\<rparr>)],
                  served_at := served_at st @ [Sprintf_colon_d port],
                  pool_closed := True\<rparr>)"
  by (simp_all add: Execute_def Run_def pgxpool_Connect_def Close_def MustRegister_first)

end
